theory Spec2Isabelle
  imports Complex_Main
begin

section \<open>The interview coach front end (App component)\<close>

text \<open>
  The App component keeps the session state in React state cells and refs. Every
  handler is modelled as a function from the state before the handler to the state
  after React has committed the handler's updates and run the effects that depend on
  them. JavaScript numbers are modelled as exact rationals; the clock (\<open>Date.now()\<close>)
  is an input of the handlers that read it. The payload of an \<open>analysis\<close> event is an
  object with the fields of the event's contract, each a number or a string when
  present; an absent (undefined) property of an object is \<open>None\<close>, and a JSON
  \<open>null\<close> is not modelled. The question list and the index of the current question
  are left out, with the requests that fetch and store them.
\<close>

subsection \<open>JavaScript helpers\<close>

definition js_round :: "rat \<Rightarrow> int" where
  \<comment> \<open>\<open>Math.round\<close>: the nearest integer, halves rounded up.\<close>
  "js_round x = \<lfloor>x + 1 / 2\<rfloor>"

definition or0 :: "rat option \<Rightarrow> rat" where
  \<comment> \<open>\<open>x || 0\<close> on a number or undefined.\<close>
  "or0 x = (case x of None \<Rightarrow> 0 | Some v \<Rightarrow> v)"

definition spread_field :: "'a option \<Rightarrow> 'a option \<Rightarrow> 'a option" where
  \<comment> \<open>One property of \<open>{...prev, ...payload}\<close>: the payload's value when it has the key.\<close>
  "spread_field prev payload = (case payload of None \<Rightarrow> prev | Some v \<Rightarrow> Some v)"

definition slice_last :: "nat \<Rightarrow> 'a list \<Rightarrow> 'a list" where
  \<comment> \<open>\<open>xs.slice(-n)\<close> for a positive \<open>n\<close>: the last \<open>n\<close> elements, all of them when there are fewer.\<close>
  "slice_last n xs = drop (length xs - n) xs"

fun digits10 :: "nat \<Rightarrow> string" where
  "digits10 n =
     (if n < 10 then [char_of (48 + n)]
      else digits10 (n div 10) @ [char_of (48 + n mod 10)])"

declare digits10.simps [simp del]

subsection \<open>The metrics object, history entries and the summary\<close>

record metrics =
  confidence_score :: "rat option"
  blink_count :: "rat option"
  head_pitch :: "rat option"
  head_yaw :: "rat option"
  gaze_deviation :: "rat option"
  mood_score :: "rat option"
  mood_label :: "string option"
  mouth_activity :: "rat option"
  microexpression :: "string option"
  warning :: "string option"

record entry = metrics +
  timestamp :: int
  speech_energy :: rat
  lip_sync_score :: "rat option"

record answerStats =
  stats_sampleScore :: rat
  stats_noveltyScore :: rat
  stats_matchScore :: rat

record summary =
  durationSeconds :: rat
  durationLabel :: string
  avgConfidence :: int
  attention :: int
  blinkTotal :: rat
  blinkRate :: rat
  warnings :: nat
  headMovementEvents :: nat
  suggestions :: "string list"
  avgMood :: int
  compositeScore :: int
  summary_sampleScore :: int
  summary_noveltyScore :: int
  summary_matchScore :: int
  lipSyncAverage :: int

record lipSync =
  score :: rat
  status :: string

record transcriptStats =
  words :: nat
  stats_timestamp :: int

record app =
  metrics :: metrics
  sessionActive :: bool
  sessionActiveRef :: bool
  metricsHistory :: "entry list"
  sessionSummary :: "summary option"
  matchScore :: rat
  sampleScore :: rat
  noveltyScore :: rat
  missingKeywords :: "string list"
  showSampleAnswer :: bool
  speechEnergy :: rat
  speechEnergyRef :: rat
  transcriptStatsRef :: transcriptStats
  lipSyncScore :: rat
  lipSyncStatus :: string
  transcript :: string
  isSupported :: bool
  isListening :: bool

definition initial_metrics :: metrics where
  \<comment> \<open>\<open>{ confidence_score: 100, blink_count: 0 }\<close>\<close>
  "initial_metrics =
     \<lparr>confidence_score = Some 100, blink_count = Some 0, head_pitch = None,
      head_yaw = None, gaze_deviation = None, mood_score = None, mood_label = None,
      mouth_activity = None, microexpression = None, warning = None\<rparr>"

definition mount :: "int \<Rightarrow> bool \<Rightarrow> app" where
  \<comment> \<open>The state cells as \<open>useState\<close> and \<open>useRef\<close> initialise them; \<open>now\<close> is the clock
      at mount, \<open>supported\<close> whether the browser has speech recognition.\<close>
  "mount now supported =
     \<lparr>metrics = initial_metrics, sessionActive = True, sessionActiveRef = True,
      metricsHistory = [], sessionSummary = None, matchScore = 0, sampleScore = 0,
      noveltyScore = 0, missingKeywords = [], showSampleAnswer = False,
      speechEnergy = 0, speechEnergyRef = 0,
      transcriptStatsRef = \<lparr>words = 0, stats_timestamp = now\<rparr>,
      lipSyncScore = 100, lipSyncStatus = ''Synced'', transcript = [],
      isSupported = supported, isListening = False\<rparr>"

subsection \<open>Speech energy and lip sync\<close>

definition transcriptEffect :: "string \<Rightarrow> nat \<Rightarrow> int \<Rightarrow> app \<Rightarrow> app" where
  \<comment> \<open>The effect on \<open>[transcript]\<close>; \<open>n\<close> is the number of whitespace-separated words
      of the new transcript, \<open>now\<close> the clock.\<close>
  "transcriptEffect text n now s =
     (let prevStats = transcriptStatsRef s;
          deltaWords = max 0 (int n - int (words prevStats));
          deltaTime = max 500
            (now - (if stats_timestamp prevStats = 0 then now else stats_timestamp prevStats));
          wordsPerMinute = (of_int deltaWords / of_int deltaTime) * 60000;
          energy = max 0 (min 100 ((wordsPerMinute / 140) * 100))
      in s\<lparr>transcript := text, speechEnergy := energy, speechEnergyRef := energy,
           transcriptStatsRef := \<lparr>words = n, stats_timestamp = now\<rparr>\<rparr>)"

definition computeLipSync :: "rat \<Rightarrow> rat option \<Rightarrow> lipSync" where
  \<comment> \<open>The first argument is \<open>speechEnergyRef.current\<close>.\<close>
  "computeLipSync energy mouthActivity =
     (let diff = \<bar>or0 mouthActivity - energy\<bar>;
          score = max 0 (100 - diff);
          status = (if score > 70 then ''Synced''
                    else if score > 45 then ''Loosely Synced'' else ''Off-sync'')
      in \<lparr>score = score, status = status\<rparr>)"

subsection \<open>The analysis listener\<close>

definition spread :: "metrics \<Rightarrow> metrics \<Rightarrow> metrics" where
  \<comment> \<open>\<open>{ ...prev, ...payload }\<close>\<close>
  "spread prev payload =
     \<lparr>confidence_score = spread_field (confidence_score prev) (confidence_score payload),
      blink_count = spread_field (blink_count prev) (blink_count payload),
      head_pitch = spread_field (head_pitch prev) (head_pitch payload),
      head_yaw = spread_field (head_yaw prev) (head_yaw payload),
      gaze_deviation = spread_field (gaze_deviation prev) (gaze_deviation payload),
      mood_score = spread_field (mood_score prev) (mood_score payload),
      mood_label = spread_field (mood_label prev) (mood_label payload),
      mouth_activity = spread_field (mouth_activity prev) (mouth_activity payload),
      microexpression = spread_field (microexpression prev) (microexpression payload),
      warning = spread_field (warning prev) (warning payload)\<rparr>"

definition mouthActivityOf :: "metrics \<Rightarrow> metrics \<Rightarrow> rat" where
  \<comment> \<open>\<open>payload?.mouth_activity ?? updated.mouth_activity ?? prev.mouth_activity ?? 0\<close>\<close>
  "mouthActivityOf prev payload =
     (case mouth_activity payload of Some v \<Rightarrow> v
      | None \<Rightarrow> (case mouth_activity (spread prev payload) of Some v \<Rightarrow> v
        | None \<Rightarrow> (case mouth_activity prev of Some v \<Rightarrow> v | None \<Rightarrow> 0)))"

definition historyEntry :: "metrics \<Rightarrow> int \<Rightarrow> rat \<Rightarrow> rat \<Rightarrow> entry" where
  \<comment> \<open>\<open>{ ...updated, timestamp: Date.now(), speech_energy: ..., lip_sync_score: score }\<close>\<close>
  "historyEntry updated now energy sc =
     metrics.extend updated
       (entry.fields now energy (Some sc))"

definition entryOf :: "app \<Rightarrow> metrics \<Rightarrow> int \<Rightarrow> entry" where
  \<comment> \<open>The entry the listener builds for a payload in a given state.\<close>
  "entryOf s payload now =
     historyEntry (spread (metrics s) payload) now (speechEnergyRef s)
       (score (computeLipSync (speechEnergyRef s) (Some (mouthActivityOf (metrics s) payload))))"

definition appendHistory :: "entry list \<Rightarrow> entry \<Rightarrow> entry list" where
  \<comment> \<open>The updater passed to \<open>setMetricsHistory\<close>.\<close>
  "appendHistory history e =
     (let next = history @ [e]
      in if length next > 600 then slice_last 600 next else next)"

definition listener :: "metrics \<Rightarrow> int \<Rightarrow> app \<Rightarrow> app" where
  \<comment> \<open>The handler of the socket's \<open>analysis\<close> event.\<close>
  "listener payload now s =
     (let prev = metrics s;
          updated = spread prev payload;
          mouthActivity = mouthActivityOf prev payload;
          ls = computeLipSync (speechEnergyRef s) (Some mouthActivity);
          s1 = s\<lparr>lipSyncScore := score ls, lipSyncStatus := status ls\<rparr>;
          s2 = (if sessionActiveRef s
                then s1\<lparr>metricsHistory :=
                       appendHistory (metricsHistory s)
                         (historyEntry updated now (speechEnergyRef s) (score ls))\<rparr>
                else s1)
      in s2\<lparr>metrics := updated\<rparr>)"

subsection \<open>The end-of-session summary\<close>

primrec numbers :: "rat option list \<Rightarrow> rat list" where
  \<comment> \<open>\<open>.filter((value) => typeof value === "number")\<close>\<close>
  "numbers [] = []"
| "numbers (v # vs) = (case v of None \<Rightarrow> numbers vs | Some x \<Rightarrow> x # numbers vs)"

definition truthy :: "string option \<Rightarrow> bool" where
  \<comment> \<open>\<open>Boolean(x)\<close> on a string or undefined: the empty string is falsy.\<close>
  "truthy x = (case x of None \<Rightarrow> False | Some t \<Rightarrow> t \<noteq> [])"

definition tipGaze :: string where
  "tipGaze = ''Lock your gaze on the camera to project stronger engagement.''"

definition tipBlink :: string where
  "tipBlink = ''Slow your blinking cadence to convey calmness.''"

definition tipPosture :: string where
  \<comment> \<open>The dash of the source is U+2014, three bytes in UTF-8.\<close>
  "tipPosture = ''Anchor your posture'' @ [char_of (226 :: nat), char_of (128 :: nat), char_of (148 :: nat)]
     @ ''excessive nodding was detected.''"

definition tipSolid :: string where
  "tipSolid = ''Solid session! Keep iterating on your stories for mastery.''"

definition summarizeHistory :: "app \<Rightarrow> entry list \<Rightarrow> answerStats \<Rightarrow> summary option" where
  \<comment> \<open>The first argument is the component state the callback closes over; the body
      reads \<open>lipSyncScore\<close> from it.\<close>
  "summarizeHistory env history stats =
     (if history = [] then None
      else
        let startTime = timestamp (hd history);
            endTime = timestamp (last history);
            durationMs = max 0 (endTime - startTime);
            durationSeconds = max 1 (of_int durationMs / 1000);
            avgConfidence =
              foldl (\<lambda>sum item. sum + or0 (confidence_score item)) 0 history
                / of_nat (length history);
            warnings = length (filter (\<lambda>item. truthy (warning item)) history);
            avgGaze =
              foldl (\<lambda>sum item. sum + or0 (gaze_deviation item)) 0 history
                / of_nat (length history);
            attention =
              max 0 (min 100 (js_round (100 - of_nat warnings * 4 - avgGaze * 140)));
            blinkTotal = or0 (blink_count (last history));
            blinkRate =
              (if durationMs > 0
               then of_int (js_round ((blinkTotal / (of_int durationMs / 60000)) * 10)) / 10
               else 0);
            headMovementEvents =
              length (filter
                (\<lambda>item. \<bar>or0 (head_pitch item)\<bar> > 18 \<or> \<bar>or0 (head_yaw item)\<bar> > 22) history);
            moodValues = numbers (map mood_score history);
            avgMood =
              (if length moodValues > 0
               then foldl (\<lambda>sum value. sum + value) 0 moodValues / of_nat (length moodValues)
               else 60);
            lipValues = numbers (map lip_sync_score history);
            avgLipSync =
              (if length lipValues > 0
               then foldl (\<lambda>sum value. sum + value) 0 lipValues / of_nat (length lipValues)
               else lipSyncScore env);
            minutes = \<lfloor>durationSeconds / 60\<rfloor>;
            seconds = max 1 (js_round (durationSeconds - 60 * of_int \<lfloor>durationSeconds / 60\<rfloor>));
            durationLabel =
              (if minutes \<noteq> 0
               then digits10 (nat minutes) @ ''m '' @ digits10 (nat seconds) @ ''s''
               else digits10 (nat seconds) @ ''s'');
            s1 = (if attention < 70 then [tipGaze] else []);
            s2 = (if blinkRate > 25 then s1 @ [tipBlink] else s1);
            s3 = (if headMovementEvents > 10 then s2 @ [tipPosture] else s2);
            suggestions = (if s3 = [] then [tipSolid] else s3);
            compositeScore =
              js_round
                (avgConfidence * (33 / 100) + of_int attention * (18 / 100)
                 + stats_sampleScore stats * (14 / 100)
                 + stats_noveltyScore stats * (1 / 10)
                 + avgMood * (12 / 100)
                 + avgLipSync * (8 / 100)
                 + max 0 (100 - of_nat warnings * 3) * (5 / 100))
        in Some
          \<lparr>durationSeconds = durationSeconds, durationLabel = durationLabel,
           avgConfidence = js_round avgConfidence, attention = attention,
           blinkTotal = blinkTotal, blinkRate = blinkRate, warnings = warnings,
           headMovementEvents = headMovementEvents, suggestions = suggestions,
           avgMood = js_round avgMood, compositeScore = compositeScore,
           summary_sampleScore = js_round (stats_sampleScore stats),
           summary_noveltyScore = js_round (stats_noveltyScore stats),
           summary_matchScore = js_round (stats_matchScore stats),
           lipSyncAverage = js_round avgLipSync\<rparr>)"

subsection \<open>Ending and restarting a session\<close>

definition handleEndSession :: "app \<Rightarrow> app" where
  \<comment> \<open>\<open>stop()\<close> clears \<open>isListening\<close>; the effect on \<open>[sessionActive]\<close> then copies the
      flag into the ref.\<close>
  "handleEndSession s =
     (if \<not> sessionActiveRef s then s
      else
        let summary =
              summarizeHistory s (metricsHistory s)
                \<lparr>stats_sampleScore = sampleScore s, stats_noveltyScore = noveltyScore s,
                 stats_matchScore = matchScore s\<rparr>
        in s\<lparr>sessionActive := False, isListening := False, sessionSummary := summary,
             sessionActiveRef := False\<rparr>)"

definition handleRestart :: "int \<Rightarrow> app \<Rightarrow> app" where
  \<comment> \<open>\<open>resetTranscript()\<close> empties the transcript, so the effect on \<open>[transcript]\<close>
      runs (at clock \<open>now\<close>) when it was not empty already; \<open>start()\<close> sets
      \<open>isListening\<close> when recognition exists.\<close>
  "handleRestart now s =
     (let s1 = s\<lparr>sessionSummary := None, metricsHistory := [], metrics := initial_metrics,
                 matchScore := 0, sampleScore := 0, noveltyScore := 0,
                 missingKeywords := [], showSampleAnswer := False,
                 lipSyncScore := 100, lipSyncStatus := ''Synced'',
                 sessionActive := True, sessionActiveRef := True,
                 isListening := (if isSupported s then True else isListening s)\<rparr>
      in if transcript s \<noteq> [] then transcriptEffect [] 0 now s1 else s1)"

subsection \<open>Answer scores\<close>

definition transcriptResponse ::
  "rat \<Rightarrow> rat option \<Rightarrow> rat option \<Rightarrow> string list option \<Rightarrow> app \<Rightarrow> app"
where
  \<comment> \<open>\<open>sendTranscript\<close> once the response has arrived with a \<open>match_score\<close>; the other
      three fields fall back with \<open>??\<close>.\<close>
  "transcriptResponse match_score sample_score novelty_score missing_keywords s =
     s\<lparr>matchScore := match_score,
       sampleScore := (case sample_score of None \<Rightarrow> 0 | Some v \<Rightarrow> v),
       noveltyScore := (case novelty_score of None \<Rightarrow> 0 | Some v \<Rightarrow> v),
       missingKeywords := (case missing_keywords of None \<Rightarrow> [] | Some ks \<Rightarrow> ks)\<rparr>"

definition cycleQuestion :: "app \<Rightarrow> app" where
  "cycleQuestion s =
     s\<lparr>matchScore := 0, sampleScore := 0, noveltyScore := 0, missingKeywords := [],
       showSampleAnswer := False\<rparr>"

definition handleCreateQuestion :: "bool \<Rightarrow> app \<Rightarrow> app" where
  \<comment> \<open>The state updates after the question is stored; \<open>hasSample\<close> is
      \<open>Boolean(data.question.sample_answer)\<close>.\<close>
  "handleCreateQuestion hasSample s =
     s\<lparr>matchScore := 0, sampleScore := 0, noveltyScore := 0, missingKeywords := [],
       showSampleAnswer := hasSample\<rparr>"

definition onToggleSample :: "app \<Rightarrow> app" where
  "onToggleSample s = s\<lparr>showSampleAnswer := \<not> showSampleAnswer s\<rparr>"

subsection \<open>Runs of the component\<close>

datatype event =
  Analysis metrics int
  | Transcript string nat int
  | TranscriptResponse rat "rat option" "rat option" "string list option"
  | NextQuestion
  | CreateQuestion bool
  | ToggleSample
  | EndSession
  | Restart int

fun step :: "app \<Rightarrow> event \<Rightarrow> app" where
  "step s (Analysis payload now) = listener payload now s"
| "step s (Transcript text n now) = transcriptEffect text n now s"
| "step s (TranscriptResponse m sa nv ks) = transcriptResponse m sa nv ks s"
| "step s NextQuestion = cycleQuestion s"
| "step s (CreateQuestion hasSample) = handleCreateQuestion hasSample s"
| "step s ToggleSample = onToggleSample s"
| "step s EndSession = handleEndSession s"
| "step s (Restart now) = handleRestart now s"

definition run :: "app \<Rightarrow> event list \<Rightarrow> app" where
  "run s es = foldl step s es"

fun analyses :: "app \<Rightarrow> (metrics \<times> int) list \<Rightarrow> app" where
  \<comment> \<open>A run of \<open>analysis\<close> events only, each with its payload and clock.\<close>
  "analyses s [] = s"
| "analyses s ((payload, now) # ps) = analyses (listener payload now s) ps"

fun entries :: "app \<Rightarrow> (metrics \<times> int) list \<Rightarrow> entry list" where
  \<comment> \<open>The snapshots such a run builds, in arrival order.\<close>
  "entries s [] = []"
| "entries s ((payload, now) # ps) = entryOf s payload now # entries (listener payload now s) ps"

section \<open>The behavioural signal engine\<close>

text \<open>
  The engine runs in the backend (\<open>backend/cv_utils.py\<close>, class \<open>VideoProcessor\<close>), which
  is not among the sources at hand; the front end above only receives its snapshots.
  The definitions of this section are therefore modelled from the specification
  (sections 3, 4, 6 and 7), with its constants where it gives them and a \<open>config\<close>
  parameter for every quantity it leaves open. Trigonometry and distances stay outside:
  the geometry is a parameter that maps the landmarks to the raw ratios and the pose in
  degrees. A measurement holds every sub-metric; frames with a degenerate denominator
  are not covered.
\<close>

subsection \<open>Landmarks and measurements\<close>

text \<open>
  Modelled from the spec: a LandmarkFrame is an ordered sequence of named 3D points, or
  the explicit "no face" signal (3, 6); the roles are a type parameter. A measurement
  is the struct of raw ratios of the Geometry Extractors (4.1), with the pose already
  in degrees (4.3).
\<close>

type_synonym point = "rat \<times> rat \<times> rat"

datatype 'r LandmarkFrame =
  NoFace
  | Landmarks "('r \<times> point) list"

record measurement =
  ear_left :: rat
  ear_right :: rat
  iris_left :: rat
  iris_right :: rat
  smile_ratio :: rat
  mouth_ratio :: rat
  brow_gap :: rat
  pitch :: rat
  yaw :: rat

definition extract_measurement ::
  "'r list \<Rightarrow> (('r \<Rightarrow> point option) \<Rightarrow> measurement) \<Rightarrow> 'r LandmarkFrame \<Rightarrow> measurement option"
where
  \<comment> \<open>Modelled from the spec: the Geometry Extractors (4.1) are missing; they fail with
      "no measurement" if any required landmark role is absent, and "no face" is the
      same failure (6). \<open>required\<close> lists the required roles.\<close>
  "extract_measurement required geometry frame =
     (case frame of
        NoFace \<Rightarrow> None
      | Landmarks pts \<Rightarrow>
          if list_all (\<lambda>r. map_of pts r \<noteq> None) required
          then Some (geometry (map_of pts)) else None)"

subsection \<open>Configuration and session state\<close>

text \<open>
  Modelled from the spec: the constants it fixes (4.2 to 4.6; the names are those of the
  README's hyperparameters), the SessionState and MetricsSnapshot of its data model (3),
  with one cooldown counter per warning category (4.6), and a \<open>config\<close> of the
  quantities it leaves to calibration (9).
\<close>

definition blink_threshold :: rat where
  \<comment> \<open>Modelled from the spec: the eye-aspect ratio below which the eyes are CLOSED.\<close>
  "blink_threshold = 1 / 4"

definition blink_consec_frames :: nat where
  \<comment> \<open>Modelled from the spec: the least length of a CLOSED run that commits a blink.\<close>
  "blink_consec_frames = 3"

definition ear_window :: nat where
  \<comment> \<open>Modelled from the spec: the rolling buffer holds the last 12 samples.\<close>
  "ear_window = 12"

definition max_confidence :: rat where
  \<comment> \<open>Modelled from the spec: the ceiling of the confidence score.\<close>
  "max_confidence = 100"

definition min_confidence :: rat where
  \<comment> \<open>Modelled from the spec: the floor of the confidence score.\<close>
  "min_confidence = 20"

definition score_decay :: rat where
  \<comment> \<open>Modelled from the spec: the base multiplier 1.4 of the penalty.\<close>
  "score_decay = 7 / 5"

definition score_recovery :: rat where
  \<comment> \<open>Modelled from the spec: the recovery amount 1.0.\<close>
  "score_recovery = 1"

definition microexpression_cooldown :: nat where
  \<comment> \<open>Modelled from the spec: 25 frames between micro-expression events.\<close>
  "microexpression_cooldown = 25"

definition movement_cooldown :: nat where
  \<comment> \<open>Modelled from the spec: 15 frames between movement warnings.\<close>
  "movement_cooldown = 15"

definition pitch_limit :: rat where
  \<comment> \<open>Modelled from the spec: excessive head movement is \<open>|pitch| > 18\<close> degrees.\<close>
  "pitch_limit = 18"

definition yaw_limit :: rat where
  \<comment> \<open>Modelled from the spec: excessive head movement is \<open>|yaw| > 22\<close> degrees.\<close>
  "yaw_limit = 22"

record SessionState =
  recent_ear :: "rat list"
  low_ear_frames :: nat
  blink_total :: int
  confidence :: rat
  stable_smile :: rat
  frames_since_micro :: nat
  frames_since_movement_warning :: nat
  frames_since_gaze_warning :: nat
  frames_since_blink_warning :: nat

record config =
  gaze_band :: rat
  decay_scale :: "bool \<Rightarrow> bool \<Rightarrow> bool \<Rightarrow> rat"
  rapid_blink :: "SessionState \<Rightarrow> bool"
  mood_baseline :: rat
  smile_neutral :: rat
  smile_saturation :: rat
  brow_relaxed :: rat
  w1 :: rat
  w2 :: rat
  w3 :: rat
  w4 :: rat
  micro_sensitivity :: rat
  mouth_scale :: rat
  gaze_cooldown :: nat
  blink_cooldown :: nat

datatype MoodLabel = Engaged | Neutral | Tense

datatype WarningCategory = GazeWarning | MovementWarning | BlinkWarning

record MetricsSnapshot =
  snap_confidence_score :: rat
  snap_blink_count :: int
  snap_head_pitch :: rat
  snap_head_yaw :: rat
  snap_gaze_deviation :: rat
  snap_mood_score :: rat
  snap_mood_label :: MoodLabel
  snap_mouth_activity :: rat
  snap_microexpression :: bool
  snap_warning :: "WarningCategory option"

definition session_start :: "config \<Rightarrow> SessionState" where
  \<comment> \<open>Modelled from the spec: session-start allocates the state with confidence 100 and
      blink count 0 (6); the empty window, the zero counters and the neutral smile
      baseline are this model's choice.\<close>
  "session_start cfg =
     \<lparr>recent_ear = [], low_ear_frames = 0, blink_total = 0, confidence = max_confidence,
      stable_smile = smile_neutral cfg, frames_since_micro = 0,
      frames_since_movement_warning = 0, frames_since_gaze_warning = 0,
      frames_since_blink_warning = 0\<rparr>"

subsection \<open>The evaluators\<close>

definition clamp :: "rat \<Rightarrow> rat \<Rightarrow> rat \<Rightarrow> rat" where
  \<comment> \<open>Modelled from the spec: clamping a score to its declared range (3).\<close>
  "clamp lo hi x = max lo (min hi x)"

definition avg_ear :: "measurement \<Rightarrow> rat" where
  \<comment> \<open>Modelled from the spec: the eye-aspect ratio averaged over both eyes (4.2).\<close>
  "avg_ear m = (ear_left m + ear_right m) / 2"

definition closed_eyes :: "measurement \<Rightarrow> bool" where
  \<comment> \<open>Modelled from the spec: CLOSED is an average eye-aspect ratio below 0.25 (4.2).\<close>
  "closed_eyes m = (avg_ear m < blink_threshold)"

definition blink_commit :: "SessionState \<Rightarrow> measurement \<Rightarrow> bool" where
  \<comment> \<open>Modelled from the spec: a transition back to OPEN commits a blink only if the
      preceding CLOSED run lasted at least 3 consecutive frames (4.2).\<close>
  "blink_commit s m = (\<not> closed_eyes m \<and> blink_consec_frames \<le> low_ear_frames s)"

definition blink_update :: "SessionState \<Rightarrow> measurement \<Rightarrow> SessionState" where
  \<comment> \<open>Modelled from the spec: the Blink State Machine (4.2); the window keeps the last
      12 samples and takes no part in the decision.\<close>
  "blink_update s m =
     (let s1 = s\<lparr>recent_ear := slice_last ear_window (recent_ear s @ [avg_ear m])\<rparr>
      in if closed_eyes m then s1\<lparr>low_ear_frames := low_ear_frames s + 1\<rparr>
         else if blink_commit s m
              then s1\<lparr>blink_total := blink_total s + 1, low_ear_frames := 0\<rparr>
              else s1\<lparr>low_ear_frames := 0\<rparr>)"

definition excessive_movement :: "measurement \<Rightarrow> bool" where
  \<comment> \<open>Modelled from the spec: \<open>|pitch| > 18\<close> or \<open>|yaw| > 22\<close> degrees (4.3).\<close>
  "excessive_movement m = (\<bar>pitch m\<bar> > pitch_limit \<or> \<bar>yaw m\<bar> > yaw_limit)"

definition gaze_deviation_of :: "measurement \<Rightarrow> rat" where
  \<comment> \<open>Modelled from the spec: the mean of both eyes' iris-to-corner ratio, offset from
      0.5, as a magnitude (4.3, 6).\<close>
  "gaze_deviation_of m = \<bar>(iris_left m + iris_right m) / 2 - 1 / 2\<bar>"

definition looking_away :: "config \<Rightarrow> measurement \<Rightarrow> bool" where
  \<comment> \<open>Modelled from the spec: a deviation beyond the empirically chosen band (4.3).\<close>
  "looking_away cfg m = (gaze_deviation_of m > gaze_band cfg)"

definition confidence_dynamics :: "config \<Rightarrow> SessionState \<Rightarrow> measurement \<Rightarrow> rat" where
  \<comment> \<open>Modelled from the spec: Confidence Dynamics (4.4): exactly one of penalty and
      recovery per frame, the result clamped to [20, 100].\<close>
  "confidence_dynamics cfg s m =
     (let movement = excessive_movement m;
          away = looking_away cfg m;
          rapid = (blink_commit s m \<and> rapid_blink cfg s)
      in if movement \<or> away \<or> rapid
         then clamp min_confidence max_confidence
                (confidence s - score_decay * decay_scale cfg movement away rapid)
         else clamp min_confidence max_confidence (confidence s + score_recovery))"

definition mood_score_of :: "config \<Rightarrow> measurement \<Rightarrow> rat" where
  \<comment> \<open>Modelled from the spec: the Mood and Expression Scorer (4.5): a baseline adjusted
      by four weighted terms, clamped to [0, 100].\<close>
  "mood_score_of cfg m =
     clamp 0 100
       (mood_baseline cfg
        + w1 cfg * min (smile_saturation cfg) (smile_ratio m - smile_neutral cfg)
        + w2 cfg * (brow_gap m - brow_relaxed cfg)
        - w3 cfg * (\<bar>pitch m\<bar> + \<bar>yaw m\<bar>)
        - w4 cfg * gaze_deviation_of m)"

definition mood_label_of :: "rat \<Rightarrow> MoodLabel" where
  \<comment> \<open>Modelled from the spec: above 70 Engaged, 40 to 70 Neutral, below Tense; 70 and
      40 belong to the lower band (4.5).\<close>
  "mood_label_of x = (if x > 70 then Engaged else if x > 40 then Neutral else Tense)"

definition micro_detected :: "config \<Rightarrow> SessionState \<Rightarrow> measurement \<Rightarrow> bool" where
  \<comment> \<open>Modelled from the spec: the smile ratio moved by more than the sensitivity and the
      counter exceeds the cooldown of 25 frames (4.5).\<close>
  "micro_detected cfg s m =
     (\<bar>smile_ratio m - stable_smile s\<bar> > micro_sensitivity cfg
      \<and> frames_since_micro s > microexpression_cooldown)"

definition warning_of :: "config \<Rightarrow> SessionState \<Rightarrow> measurement \<Rightarrow> WarningCategory option" where
  \<comment> \<open>Modelled from the spec: the Warning/Event Gate (4.6): at most one warning per
      snapshot, in the priority order gaze, movement, blink, each behind its cooldown.\<close>
  "warning_of cfg s m =
     (if looking_away cfg m \<and> gaze_cooldown cfg \<le> frames_since_gaze_warning s
      then Some GazeWarning
      else if excessive_movement m \<and> movement_cooldown \<le> frames_since_movement_warning s
      then Some MovementWarning
      else if blink_commit s m \<and> rapid_blink cfg s
              \<and> blink_cooldown cfg \<le> frames_since_blink_warning s
      then Some BlinkWarning
      else None)"

definition update :: "config \<Rightarrow> SessionState \<Rightarrow> measurement \<Rightarrow> SessionState \<times> MetricsSnapshot" where
  \<comment> \<open>Modelled from the spec: one processed frame (2): the evaluators read the state
      before the frame, then the state is mutated once and the snapshot emitted.\<close>
  "update cfg s m =
     (let micro = micro_detected cfg s m;
          w = warning_of cfg s m;
          s1 = blink_update s m;
          s2 = s1\<lparr>confidence := confidence_dynamics cfg s m,
                  stable_smile := (if micro then smile_ratio m else stable_smile s),
                  frames_since_micro := (if micro then 0 else frames_since_micro s + 1),
                  frames_since_gaze_warning :=
                    (if w = Some GazeWarning then 0 else frames_since_gaze_warning s + 1),
                  frames_since_movement_warning :=
                    (if w = Some MovementWarning then 0
                     else frames_since_movement_warning s + 1),
                  frames_since_blink_warning :=
                    (if w = Some BlinkWarning then 0 else frames_since_blink_warning s + 1)\<rparr>;
          snap = \<lparr>snap_confidence_score = confidence s2,
                  snap_blink_count = blink_total s2,
                  snap_head_pitch = pitch m, snap_head_yaw = yaw m,
                  snap_gaze_deviation = gaze_deviation_of m,
                  snap_mood_score = mood_score_of cfg m,
                  snap_mood_label = mood_label_of (mood_score_of cfg m),
                  snap_mouth_activity = clamp 0 100 (mouth_ratio m * mouth_scale cfg),
                  snap_microexpression = micro,
                  snap_warning = w\<rparr>
      in (s2, snap))"

definition process_frame ::
  "'r list \<Rightarrow> (('r \<Rightarrow> point option) \<Rightarrow> measurement) \<Rightarrow> config \<Rightarrow> SessionState
     \<Rightarrow> 'r LandmarkFrame \<Rightarrow> SessionState \<times> MetricsSnapshot option"
where
  \<comment> \<open>Modelled from the spec: on a failed extraction the engine skips scoring, keeps the
      state and emits nothing (4.1, 6, 7).\<close>
  "process_frame required geometry cfg s frame =
     (case extract_measurement required geometry frame of
        None \<Rightarrow> (s, None)
      | Some m \<Rightarrow> (fst (update cfg s m), Some (snd (update cfg s m))))"

fun process_frames ::
  "'r list \<Rightarrow> (('r \<Rightarrow> point option) \<Rightarrow> measurement) \<Rightarrow> config \<Rightarrow> SessionState
     \<Rightarrow> 'r LandmarkFrame list \<Rightarrow> SessionState \<times> MetricsSnapshot list"
where
  \<comment> \<open>Modelled from the spec: the frames of a session are applied strictly in arrival
      order (5); the result is the final state and the snapshots emitted, in order.\<close>
  "process_frames required geometry cfg s [] = (s, [])"
| "process_frames required geometry cfg s (f # fs) =
     (let (s1, out) = process_frame required geometry cfg s f;
          (s2, outs) = process_frames required geometry cfg s1 fs
      in (s2, (case out of None \<Rightarrow> outs | Some snap \<Rightarrow> snap # outs)))"

definition measured ::
  "'r list \<Rightarrow> (('r \<Rightarrow> point option) \<Rightarrow> measurement) \<Rightarrow> 'r LandmarkFrame list \<Rightarrow> measurement list"
where
  \<comment> \<open>Modelled from the spec: the measurements of the frames that were scored, in order.\<close>
  "measured required geometry fs = List.map_filter (extract_measurement required geometry) fs"

definition closed_run ::
  "'r list \<Rightarrow> (('r \<Rightarrow> point option) \<Rightarrow> measurement) \<Rightarrow> 'r LandmarkFrame list \<Rightarrow> nat"
where
  \<comment> \<open>Modelled from the spec: the length of the run of consecutive CLOSED frames that
      ends the scored frames (4.2).\<close>
  "closed_run required geometry fs =
     length (takeWhile closed_eyes (rev (measured required geometry fs)))"

definition open_frame ::
  "'r list \<Rightarrow> (('r \<Rightarrow> point option) \<Rightarrow> measurement) \<Rightarrow> 'r LandmarkFrame \<Rightarrow> bool"
where
  \<comment> \<open>Modelled from the spec: a scored frame whose eyes are OPEN (4.2).\<close>
  "open_frame required geometry f =
     (case extract_measurement required geometry f of None \<Rightarrow> False | Some m \<Rightarrow> \<not> closed_eyes m)"

section \<open>Example sessions\<close>

text \<open>Concrete payloads, states and frames on which the definitions are evaluated.\<close>

definition sample_payload :: metrics where
  "sample_payload =
     \<lparr>confidence_score = Some 80, blink_count = Some 2, head_pitch = Some 5,
      head_yaw = Some (-3), gaze_deviation = Some (1 / 10), mood_score = Some 65,
      mood_label = Some ''Neutral'', mouth_activity = Some 20, microexpression = None,
      warning = None\<rparr>"

definition late_payload :: metrics where
  "late_payload =
     \<lparr>confidence_score = Some 55, blink_count = Some 3, head_pitch = Some 25,
      head_yaw = Some 0, gaze_deviation = Some (3 / 10), mood_score = Some 35,
      mood_label = Some ''Tense'', mouth_activity = Some 90, microexpression = None,
      warning = Some ''Maintain eye contact with the camera.''\<rparr>"

definition ended_session :: app where
  "ended_session = handleEndSession (listener sample_payload 5 (mount 0 True))"

definition full_session :: app where
  "full_session =
     (mount 0 True)\<lparr>metricsHistory := replicate 600 (entryOf (mount 0 True) sample_payload 1)\<rparr>"

definition unscored_history :: "entry list" where
  "unscored_history =
     [(historyEntry sample_payload 1000 0 80)\<lparr>lip_sync_score := None\<rparr>,
      (historyEntry late_payload 93500 0 10)\<lparr>lip_sync_score := None\<rparr>]"

definition sample_stats :: answerStats where
  "sample_stats = \<lparr>stats_sampleScore = 40, stats_noveltyScore = 30, stats_matchScore = 50\<rparr>"

definition example_config :: config where
  "example_config =
     \<lparr>gaze_band = 3 / 20,
      decay_scale = (\<lambda>movement away rapid.
         (if movement then 3 / 2 else 0) + (if away then 1 else 0) + (if rapid then 1 else 0)),
      rapid_blink = (\<lambda>s. False),
      mood_baseline = 60, smile_neutral = 3, smile_saturation = 2, brow_relaxed = 1 / 4,
      w1 = 10, w2 = 40, w3 = 1 / 2, w4 = 100,
      micro_sensitivity = 1 / 2, mouth_scale = 200, gaze_cooldown = 15, blink_cooldown = 15\<rparr>"

definition example_roles :: "nat list" where
  "example_roles = [0, 1]"

definition example_geometry :: "(nat \<Rightarrow> point option) \<Rightarrow> measurement" where
  \<comment> \<open>Reads the eye-aspect ratio of both eyes and the yaw from the point of role 0.\<close>
  "example_geometry pts =
     (let p = (case pts 0 of None \<Rightarrow> (0, 0, 0) | Some q \<Rightarrow> q)
      in \<lparr>ear_left = fst p, ear_right = fst p, iris_left = 1 / 2, iris_right = 1 / 2,
          smile_ratio = 3, mouth_ratio = 1 / 10, brow_gap = 1 / 4,
          pitch = 0, yaw = fst (snd p)\<rparr>)"

definition example_frame :: "rat \<Rightarrow> rat \<Rightarrow> nat LandmarkFrame" where
  "example_frame ear yaw_degrees = Landmarks [(0, (ear, yaw_degrees, 0)), (1, (1 / 2, 0, 0))]"

definition partial_frame :: "nat LandmarkFrame" where
  "partial_frame = Landmarks [(0, (3 / 20, 0, 0))]"

definition eyes_shut :: "nat LandmarkFrame" where
  "eyes_shut = example_frame (3 / 20) 0"

definition eyes_wide :: "nat LandmarkFrame" where
  "eyes_wide = example_frame (2 / 5) 0"

definition example_session :: "nat LandmarkFrame list \<Rightarrow> SessionState \<times> MetricsSnapshot list" where
  "example_session fs =
     process_frames example_roles example_geometry example_config
       (session_start example_config) fs"

section \<open>Properties of the front end\<close>

subsection \<open>Auxiliary facts\<close>

lemma slice_last_append: "slice_last n (slice_last n xs @ ys) = slice_last n (xs @ ys)"
proof (cases "length xs \<le> n")
  case True
  then show ?thesis by (simp add: slice_last_def)
next
  case False
  then have "length xs + length ys - (length xs - n + n) + (length xs - n) = length xs + length ys - n"
    by arith
  with False show ?thesis by (simp add: slice_last_def)
qed

lemma slice_last_short: "length xs \<le> n \<Longrightarrow> slice_last n xs = xs"
  by (simp add: slice_last_def)

lemma length_slice_last: "length (slice_last n xs) = min n (length xs)"
  by (simp add: slice_last_def)

lemma appendHistory_slice: "appendHistory h e = slice_last 600 (h @ [e])"
  by (simp add: appendHistory_def slice_last_def Let_def)

lemma listener_sessionActiveRef: "sessionActiveRef (listener p now s) = sessionActiveRef s"
  by (simp add: listener_def Let_def)

lemma listener_history_active:
  "sessionActiveRef s \<Longrightarrow>
     metricsHistory (listener p now s) = slice_last 600 (metricsHistory s @ [entryOf s p now])"
  by (simp add: listener_def Let_def appendHistory_slice entryOf_def)

lemma listener_history_inactive:
  "\<not> sessionActiveRef s \<Longrightarrow> metricsHistory (listener p now s) = metricsHistory s"
  by (simp add: listener_def Let_def)

lemma length_entries: "length (entries s ps) = length ps"
  by (induction s ps rule: entries.induct) auto

lemma analyses_history:
  "sessionActiveRef s \<Longrightarrow> length (metricsHistory s) \<le> 600 \<Longrightarrow>
     metricsHistory (analyses s ps) = slice_last 600 (metricsHistory s @ entries s ps)"
proof (induction s ps rule: analyses.induct)
  case (1 s)
  then show ?case by (simp add: slice_last_short)
next
  case (2 s payload now ps)
  let ?s' = "listener payload now s"
  have h: "metricsHistory ?s' = slice_last 600 (metricsHistory s @ [entryOf s payload now])"
    using 2 by (simp add: listener_history_active)
  have "metricsHistory (analyses ?s' ps) = slice_last 600 (metricsHistory ?s' @ entries ?s' ps)"
    using 2 h by (simp add: listener_sessionActiveRef length_slice_last)
  also have "\<dots> = slice_last 600 ((metricsHistory s @ [entryOf s payload now]) @ entries ?s' ps)"
    unfolding h by (rule slice_last_append)
  finally show ?case by simp
qed

lemma step_history_bound:
  assumes "length (metricsHistory s) \<le> 600"
  shows "length (metricsHistory (step s e)) \<le> 600"
proof (cases e)
  case (Analysis p now)
  with assms show ?thesis
    by (cases "sessionActiveRef s")
       (simp_all add: listener_history_active listener_history_inactive length_slice_last)
next
  case (Transcript t n now)
  with assms show ?thesis by (simp add: transcriptEffect_def Let_def)
next
  case (TranscriptResponse m sa nv ks)
  with assms show ?thesis by (simp add: transcriptResponse_def)
next
  case NextQuestion
  with assms show ?thesis by (simp add: cycleQuestion_def)
next
  case (CreateQuestion b)
  with assms show ?thesis by (simp add: handleCreateQuestion_def)
next
  case ToggleSample
  with assms show ?thesis by (simp add: onToggleSample_def)
next
  case EndSession
  with assms show ?thesis by (simp add: handleEndSession_def Let_def)
next
  case (Restart now)
  then show ?thesis by (simp add: handleRestart_def transcriptEffect_def Let_def)
qed

lemma run_history_bound:
  "length (metricsHistory s) \<le> 600 \<Longrightarrow> length (metricsHistory (run s es)) \<le> 600"
  unfolding run_def
  by (induction es arbitrary: s) (simp_all add: step_history_bound)

subsection \<open>Initial metrics\<close>

text \<open>
  Claim C7. At session start (the component mounts with an active session), and again
  whenever a session is restarted, the metrics hold a confidence score of 100 and a
  blink count of 0, whatever the state before the restart.
\<close>

theorem initial_metrics_at_mount_and_restart:
  "metrics (mount now supported) = initial_metrics
   \<and> metrics (handleRestart now' s) = initial_metrics
   \<and> confidence_score initial_metrics = Some 100
   \<and> blink_count initial_metrics = Some 0"
  by (simp add: mount_def handleRestart_def transcriptEffect_def Let_def initial_metrics_def)

text \<open>
  The claim at a concrete run: a payload lowers the confidence to 55, the restart
  brings it back to 100.
\<close>

theorem initial_metrics_at_mount_and_restart_witness:
  "confidence_score (metrics (mount 0 True)) = Some 100
   \<and> blink_count (metrics (mount 0 True)) = Some 0
   \<and> confidence_score (metrics (listener late_payload 5 (mount 0 True))) = Some 55
   \<and> confidence_score (metrics (handleRestart 9 (listener late_payload 5 (mount 0 True)))) = Some 100
   \<and> blink_count (metrics (handleRestart 9 (listener late_payload 5 (mount 0 True)))) = Some 0"
proof -
  have "confidence_score (metrics (listener late_payload 5 (mount 0 True))) = Some 55"
    by (simp add: listener_def Let_def spread_def spread_field_def late_payload_def)
  then show ?thesis
    using initial_metrics_at_mount_and_restart [of 0 True 9 "listener late_payload 5 (mount 0 True)"]
    by simp
qed

subsection \<open>The bounded history\<close>

text \<open>
  Claim C9. The retained history never holds more than 600 entries, along every run
  of events from the mounted component; and a run of analysis events during an active
  session keeps exactly the last 600 snapshots, in arrival order, of the history
  followed by the snapshots built.
\<close>

theorem history_keeps_600_most_recent:
  "length (metricsHistory (run (mount t0 supported) es)) \<le> 600 \<and>
   (sessionActiveRef s \<and> length (metricsHistory s) \<le> 600 \<longrightarrow>
      metricsHistory (analyses s ps) = slice_last 600 (metricsHistory s @ entries s ps)
      \<and> length (metricsHistory (analyses s ps)) = min 600 (length (metricsHistory s) + length ps))"
proof -
  have "length (metricsHistory (run (mount t0 supported) es)) \<le> 600"
    by (rule run_history_bound) (simp add: mount_def)
  moreover have "sessionActiveRef s \<and> length (metricsHistory s) \<le> 600 \<longrightarrow>
      metricsHistory (analyses s ps) = slice_last 600 (metricsHistory s @ entries s ps)
      \<and> length (metricsHistory (analyses s ps)) = min 600 (length (metricsHistory s) + length ps)"
    by (simp add: analyses_history length_slice_last length_entries)
  ultimately show ?thesis by blast
qed

text \<open>
  The claim at a history that is full: the next snapshot pushes the oldest one out.
\<close>

theorem history_keeps_600_most_recent_witness:
  "sessionActiveRef full_session \<and> length (metricsHistory full_session) = 600
   \<and> metricsHistory (analyses full_session [(late_payload, 7)])
       = replicate 599 (entryOf (mount 0 True) sample_payload 1)
         @ [entryOf full_session late_payload 7]
   \<and> length (metricsHistory
        (run (mount 0 True)
           [Analysis sample_payload 5, TranscriptResponse 50 (Some 40) None None, EndSession,
            Analysis late_payload 9])) \<le> 600"
proof -
  have a: "sessionActiveRef full_session" and l: "length (metricsHistory full_session) = 600"
    by (simp_all add: full_session_def mount_def)
  have h: "metricsHistory full_session = replicate 600 (entryOf (mount 0 True) sample_payload 1)"
    by (simp add: full_session_def)
  show ?thesis
    using history_keeps_600_most_recent
      [of 0 True
          "[Analysis sample_payload 5, TranscriptResponse 50 (Some 40) None None, EndSession,
            Analysis late_payload 9]"
          full_session "[(late_payload, 7)]"] a l
    by (simp add: h slice_last_def)
qed

subsection \<open>Lip sync\<close>

text \<open>
  Claim C10. For every mouth activity and speech energy, \<open>computeLipSync\<close> returns the
  score \<open>max 0 (100 - |m - e|)\<close>, which lies in [0, 100], and the status is decided by the
  score alone: Synced exactly above 70, Loosely Synced exactly in (45, 70], Off-sync
  otherwise. An undefined mouth activity counts as 0.
\<close>

theorem computeLipSync_score_status:
  "score (computeLipSync e ma) = max 0 (100 - \<bar>or0 ma - e\<bar>)
   \<and> 0 \<le> score (computeLipSync e ma) \<and> score (computeLipSync e ma) \<le> 100
   \<and> (status (computeLipSync e ma) = ''Synced'') = (score (computeLipSync e ma) > 70)
   \<and> (status (computeLipSync e ma) = ''Loosely Synced'')
       = (45 < score (computeLipSync e ma) \<and> score (computeLipSync e ma) \<le> 70)
   \<and> (status (computeLipSync e ma) = ''Off-sync'') = (score (computeLipSync e ma) \<le> 45)"
  by (auto simp: computeLipSync_def Let_def max_def)

text \<open>
  The claim at energy 30 and mouth activity 80.
\<close>

theorem computeLipSync_score_status_witness:
  "score (computeLipSync 30 (Some 80)) = 50
   \<and> status (computeLipSync 30 (Some 80)) = ''Loosely Synced''"
  using computeLipSync_score_status [of 30 "Some 80"] by (simp add: or0_def)

subsection \<open>Frames after the end of a session\<close>

text \<open>
  Claim C6 says that a payload arriving after the end of a session changes nothing the
  caller sees, and that ending the session discards its state at once. The listener
  guards only the history with \<open>sessionActiveRef\<close>: in the ended session below a late
  payload replaces the metrics and the lip-sync score and status, and the history built
  during the session is still there after the end.
\<close>

theorem ended_session_still_updates:
  "\<not> sessionActiveRef ended_session
   \<and> metrics (listener late_payload 9 ended_session) \<noteq> metrics ended_session
   \<and> lipSyncScore (listener late_payload 9 ended_session) \<noteq> lipSyncScore ended_session
   \<and> lipSyncStatus (listener late_payload 9 ended_session) \<noteq> lipSyncStatus ended_session
   \<and> metricsHistory ended_session = metricsHistory (listener sample_payload 5 (mount 0 True))
   \<and> metricsHistory ended_session \<noteq> []"
  by (simp add: ended_session_def handleEndSession_def listener_def Let_def mount_def
      spread_def spread_field_def mouthActivityOf_def computeLipSync_def or0_def
      appendHistory_def sample_payload_def late_payload_def initial_metrics_def)

text \<open>
  Claim C6, amended. After the end of a session an arriving payload changes the
  metrics (merged with the payload) and the lip-sync score and status and nothing
  else, so the history and the summary stay as they were. Ending an active session
  changes the session flag and its ref, the listening flag and the stored summary
  and nothing else, so it keeps the metrics, the lip-sync values and the history;
  ending a session that is not active changes nothing. A restart discards them: it
  empties the history, clears the summary, and resets the metrics to a confidence of
  100 and a blink count of 0 and the lip-sync score and status to 100 and Synced.
\<close>

theorem ended_session_freezes_history:
  "(\<not> sessionActiveRef s \<longrightarrow>
      listener p now s =
        s\<lparr>lipSyncScore := score (computeLipSync (speechEnergyRef s) (Some (mouthActivityOf (metrics s) p))),
          lipSyncStatus := status (computeLipSync (speechEnergyRef s) (Some (mouthActivityOf (metrics s) p))),
          metrics := spread (metrics s) p\<rparr>
      \<and> metricsHistory (listener p now s) = metricsHistory s
      \<and> sessionSummary (listener p now s) = sessionSummary s)
   \<and> (sessionActiveRef s \<longrightarrow>
        \<not> sessionActiveRef (handleEndSession s)
        \<and> metricsHistory (handleEndSession s) = metricsHistory s
        \<and> metrics (handleEndSession s) = metrics s
        \<and> lipSyncScore (handleEndSession s) = lipSyncScore s
        \<and> lipSyncStatus (handleEndSession s) = lipSyncStatus s
        \<and> handleEndSession s =
            s\<lparr>sessionActive := False, isListening := False,
              sessionSummary :=
                summarizeHistory s (metricsHistory s)
                  \<lparr>stats_sampleScore = sampleScore s, stats_noveltyScore = noveltyScore s,
                   stats_matchScore = matchScore s\<rparr>,
              sessionActiveRef := False\<rparr>)
   \<and> (\<not> sessionActiveRef s \<longrightarrow> handleEndSession s = s)
   \<and> metricsHistory (handleRestart now' s) = []
   \<and> sessionSummary (handleRestart now' s) = None
   \<and> metrics (handleRestart now' s) = initial_metrics
   \<and> confidence_score (metrics (handleRestart now' s)) = Some 100
   \<and> blink_count (metrics (handleRestart now' s)) = Some 0
   \<and> lipSyncScore (handleRestart now' s) = 100
   \<and> lipSyncStatus (handleRestart now' s) = ''Synced''
   \<and> sessionActiveRef (handleRestart now' s)"
  by (simp add: listener_def handleEndSession_def handleRestart_def transcriptEffect_def Let_def
      initial_metrics_def)

text \<open>
  The amended claim at the ended session above: the late payload leaves the history
  alone and brings the lip-sync score to 10, and the restart after it empties the
  history and brings the confidence back from 55 to 100 and the lip-sync score to 100.
\<close>

theorem ended_session_freezes_history_witness:
  "\<not> sessionActiveRef ended_session
   \<and> metricsHistory (listener late_payload 9 ended_session) = metricsHistory ended_session
   \<and> sessionSummary (listener late_payload 9 ended_session) = sessionSummary ended_session
   \<and> sessionActiveRef (listener sample_payload 5 (mount 0 True))
   \<and> metricsHistory ended_session = metricsHistory (listener sample_payload 5 (mount 0 True))
   \<and> metrics ended_session = metrics (listener sample_payload 5 (mount 0 True))
   \<and> handleEndSession ended_session = ended_session
   \<and> metricsHistory (handleRestart 20 ended_session) = []
   \<and> confidence_score (metrics (listener late_payload 9 ended_session)) = Some 55
   \<and> lipSyncScore (listener late_payload 9 ended_session) = 10
   \<and> metricsHistory (listener late_payload 9 ended_session) \<noteq> []
   \<and> metricsHistory (handleRestart 20 (listener late_payload 9 ended_session)) = []
   \<and> sessionSummary (handleRestart 20 (listener late_payload 9 ended_session)) = None
   \<and> confidence_score (metrics (handleRestart 20 (listener late_payload 9 ended_session)))
       = Some 100
   \<and> lipSyncScore (handleRestart 20 (listener late_payload 9 ended_session)) = 100
   \<and> lipSyncStatus (handleRestart 20 (listener late_payload 9 ended_session)) = ''Synced''"
proof -
  let ?active = "listener sample_payload 5 (mount 0 True)"
  let ?late = "listener late_payload 9 ended_session"
  have a: "sessionActiveRef ?active"
    by (simp add: listener_sessionActiveRef mount_def)
  have e: "\<not> sessionActiveRef ended_session"
    using a by (simp add: ended_session_def handleEndSession_def Let_def)
  have h: "metricsHistory ended_session \<noteq> []"
    by (simp add: ended_session_def handleEndSession_def listener_def Let_def mount_def
        appendHistory_def)
  have c: "confidence_score (spread (metrics ended_session) late_payload) = Some 55"
    by (simp add: spread_def spread_field_def late_payload_def)
  have l: "score (computeLipSync (speechEnergyRef ended_session)
             (Some (mouthActivityOf (metrics ended_session) late_payload))) = 10"
    by (simp add: ended_session_def handleEndSession_def listener_def Let_def mount_def
        mouthActivityOf_def computeLipSync_def or0_def late_payload_def)
  have kept: "metricsHistory ended_session = metricsHistory ?active
      \<and> metrics ended_session = metrics ?active"
    using a ended_session_freezes_history [of ?active late_payload 9 20]
    unfolding ended_session_def by simp
  have after: "?late =
        ended_session\<lparr>lipSyncScore := score (computeLipSync (speechEnergyRef ended_session)
            (Some (mouthActivityOf (metrics ended_session) late_payload))),
          lipSyncStatus := status (computeLipSync (speechEnergyRef ended_session)
            (Some (mouthActivityOf (metrics ended_session) late_payload))),
          metrics := spread (metrics ended_session) late_payload\<rparr>
      \<and> metricsHistory ?late = metricsHistory ended_session
      \<and> sessionSummary ?late = sessionSummary ended_session
      \<and> handleEndSession ended_session = ended_session
      \<and> metricsHistory (handleRestart 20 ended_session) = []"
    using e ended_session_freezes_history [of ended_session late_payload 9 20]
    by blast
  have "metrics ?late = spread (metrics ended_session) late_payload"
    and "lipSyncScore ?late = score (computeLipSync (speechEnergyRef ended_session)
            (Some (mouthActivityOf (metrics ended_session) late_payload)))"
    by (subst conjunct1 [OF after], simp)+
  then have shown: "confidence_score (metrics ?late) = Some 55 \<and> lipSyncScore ?late = 10"
    using c l by simp
  have restarted: "metricsHistory (handleRestart 20 ?late) = []
      \<and> sessionSummary (handleRestart 20 ?late) = None
      \<and> confidence_score (metrics (handleRestart 20 ?late)) = Some 100
      \<and> lipSyncScore (handleRestart 20 ?late) = 100
      \<and> lipSyncStatus (handleRestart 20 ?late) = ''Synced''"
    using ended_session_freezes_history [of ?late late_payload 9 20] by blast
  show ?thesis
    using a e h kept after shown restarted by simp
qed

subsection \<open>The summary\<close>

text \<open>
  Claim C8. The summary is a function of the history, the answer statistics and the
  lip-sync score the callback closes over: two calls that agree on these return equal
  summaries, whatever else differs in the component state. The model's values are
  immutable and \<open>summarizeHistory\<close> returns the summary only (the source reads the
  history through \<open>reduce\<close>, \<open>filter\<close>, \<open>map\<close> and indexing); the handler that calls it
  stores exactly this summary and leaves the history as it was.
\<close>

theorem summarizeHistory_deterministic:
  "(lipSyncScore env1 = lipSyncScore env2 \<longrightarrow>
      summarizeHistory env1 history stats = summarizeHistory env2 history stats)
   \<and> (sessionActiveRef s \<longrightarrow>
        sessionSummary (handleEndSession s) =
          summarizeHistory s (metricsHistory s)
            \<lparr>stats_sampleScore = sampleScore s, stats_noveltyScore = noveltyScore s,
             stats_matchScore = matchScore s\<rparr>
        \<and> metricsHistory (handleEndSession s) = metricsHistory s)"
  by (simp add: summarizeHistory_def handleEndSession_def Let_def)

text \<open>
  The claim at two component states that differ in the speech energy, on a history
  without lip-sync values, where the fallback decides the lip-sync average.
\<close>

theorem summarizeHistory_deterministic_witness:
  "lipSyncScore (mount 0 True) = lipSyncScore (transcriptEffect ''hello there'' 2 1000 (mount 0 True))
   \<and> speechEnergy (mount 0 True) \<noteq> speechEnergy (transcriptEffect ''hello there'' 2 1000 (mount 0 True))
   \<and> summarizeHistory (mount 0 True) unscored_history sample_stats
       = summarizeHistory (transcriptEffect ''hello there'' 2 1000 (mount 0 True))
           unscored_history sample_stats
   \<and> map_option lipSyncAverage (summarizeHistory (mount 0 True) unscored_history sample_stats)
       = Some 100
   \<and> sessionActiveRef (listener sample_payload 5 (mount 0 True))
   \<and> metricsHistory (handleEndSession (listener sample_payload 5 (mount 0 True)))
       = metricsHistory (listener sample_payload 5 (mount 0 True))"
proof -
  have l: "lipSyncScore (mount 0 True)
             = lipSyncScore (transcriptEffect ''hello there'' 2 1000 (mount 0 True))"
    by (simp add: transcriptEffect_def Let_def)
  have e: "speechEnergy (mount 0 True)
             \<noteq> speechEnergy (transcriptEffect ''hello there'' 2 1000 (mount 0 True))"
    by (simp add: transcriptEffect_def Let_def mount_def)
  have v: "map_option lipSyncAverage (summarizeHistory (mount 0 True) unscored_history sample_stats)
             = Some 100"
    by code_simp
  have a: "sessionActiveRef (listener sample_payload 5 (mount 0 True))"
    by (simp add: listener_sessionActiveRef mount_def)
  show ?thesis
    using l e v a
      summarizeHistory_deterministic
        [of "mount 0 True" "transcriptEffect ''hello there'' 2 1000 (mount 0 True)"
            unscored_history sample_stats "listener sample_payload 5 (mount 0 True)"]
    by simp
qed

section \<open>Properties of the engine\<close>

subsection \<open>Auxiliary facts\<close>

lemma clamp_range: "lo \<le> hi \<Longrightarrow> lo \<le> clamp lo hi x \<and> clamp lo hi x \<le> hi"
  by (simp add: clamp_def)

lemma confidence_dynamics_range:
  "20 \<le> confidence_dynamics cfg s m \<and> confidence_dynamics cfg s m \<le> 100"
  by (simp add: confidence_dynamics_def Let_def clamp_def min_confidence_def max_confidence_def)

lemma update_confidence: "confidence (fst (update cfg s m)) = confidence_dynamics cfg s m"
  by (simp add: update_def Let_def)

lemma update_snap_confidence:
  "snap_confidence_score (snd (update cfg s m)) = confidence_dynamics cfg s m"
  by (simp add: update_def Let_def)

lemma update_blink_total:
  "blink_total (fst (update cfg s m)) = blink_total s + (if blink_commit s m then 1 else 0)"
  by (simp add: update_def blink_update_def blink_commit_def Let_def)

lemma update_snap_blink:
  "snap_blink_count (snd (update cfg s m)) = blink_total (fst (update cfg s m))"
  by (simp add: update_def Let_def)

lemma update_low_ear:
  "low_ear_frames (fst (update cfg s m)) = (if closed_eyes m then low_ear_frames s + 1 else 0)"
  by (simp add: update_def blink_update_def Let_def)

lemma update_snap_mood:
  "snap_mood_score (snd (update cfg s m)) = mood_score_of cfg m
   \<and> snap_mood_label (snd (update cfg s m)) = mood_label_of (mood_score_of cfg m)"
  by (simp add: update_def Let_def)

lemma process_frames_Cons_fst:
  "fst (process_frames r g cfg s (f # fs))
     = fst (process_frames r g cfg (fst (process_frame r g cfg s f)) fs)"
  by (simp add: split_def Let_def)

lemma process_frames_Cons_snd:
  "snd (process_frames r g cfg s (f # fs))
     = (case snd (process_frame r g cfg s f) of
          None \<Rightarrow> snd (process_frames r g cfg (fst (process_frame r g cfg s f)) fs)
        | Some snap \<Rightarrow> snap # snd (process_frames r g cfg (fst (process_frame r g cfg s f)) fs))"
  by (simp add: split_def Let_def)

declare process_frames.simps(2) [simp del]

lemma process_frame_skip:
  "extract_measurement r g f = None \<Longrightarrow> process_frame r g cfg s f = (s, None)"
  by (simp add: process_frame_def)

lemma process_frame_scored:
  "extract_measurement r g f = Some m \<Longrightarrow>
     process_frame r g cfg s f = (fst (update cfg s m), Some (snd (update cfg s m)))"
  by (simp add: process_frame_def)

lemma process_frame_blink_mono:
  "blink_total s \<le> blink_total (fst (process_frame r g cfg s f))"
  by (cases "extract_measurement r g f")
     (simp_all add: process_frame_skip process_frame_scored update_blink_total)

lemma emitted_blink_counts:
  "sorted (map snap_blink_count (snd (process_frames r g cfg s fs)))
   \<and> (\<forall>snap \<in> set (snd (process_frames r g cfg s fs)). blink_total s \<le> snap_blink_count snap)"
proof (induction fs arbitrary: s)
  case Nil
  then show ?case by simp
next
  case (Cons f fs)
  let ?s1 = "fst (process_frame r g cfg s f)"
  let ?rest = "snd (process_frames r g cfg ?s1 fs)"
  have mono: "blink_total s \<le> blink_total ?s1" by (rule process_frame_blink_mono)
  have ih: "sorted (map snap_blink_count ?rest)"
    and lb: "\<forall>snap \<in> set ?rest. blink_total ?s1 \<le> snap_blink_count snap"
    using Cons.IH [of ?s1] by simp_all
  show ?case
  proof (cases "extract_measurement r g f")
    case None
    then have "?s1 = s" by (simp add: process_frame_skip)
    then show ?thesis
      using None ih lb by (simp add: process_frames_Cons_snd process_frame_skip)
  next
    case (Some m)
    have s1: "?s1 = fst (update cfg s m)" using Some by (simp add: process_frame_scored)
    have out: "snd (process_frames r g cfg s (f # fs)) = snd (update cfg s m) # ?rest"
      using Some by (simp add: process_frames_Cons_snd process_frame_scored)
    have cnt: "snap_blink_count (snd (update cfg s m)) = blink_total ?s1"
      by (simp add: s1 update_snap_blink)
    show ?thesis
      unfolding out using ih lb mono cnt by auto
  qed
qed

lemma emitted_confidence:
  "\<forall>snap \<in> set (snd (process_frames r g cfg s fs)).
     20 \<le> snap_confidence_score snap \<and> snap_confidence_score snap \<le> 100"
proof (induction fs arbitrary: s)
  case Nil
  then show ?case by simp
next
  case (Cons f fs)
  show ?case
  proof (cases "extract_measurement r g f")
    case None
    then show ?thesis
      using Cons.IH [of s] by (simp add: process_frames_Cons_snd process_frame_skip)
  next
    case (Some m)
    then show ?thesis
      using Cons.IH [of "fst (update cfg s m)"] confidence_dynamics_range [of cfg s m]
      by (simp add: process_frames_Cons_snd process_frame_scored update_snap_confidence)
  qed
qed

lemma process_frames_append_fst:
  "fst (process_frames r g cfg s (fs @ [f]))
     = fst (process_frame r g cfg (fst (process_frames r g cfg s fs)) f)"
proof (induction fs arbitrary: s)
  case Nil
  then show ?case by (simp add: process_frames_Cons_fst)
next
  case (Cons a fs)
  then show ?case by (simp add: process_frames_Cons_fst)
qed

lemma measured_snoc:
  "measured r g (fs @ [f])
     = measured r g fs @ (case extract_measurement r g f of None \<Rightarrow> [] | Some m \<Rightarrow> [m])"
  by (simp add: measured_def List.map_filter_def split: option.splits)

lemma low_ear_counts_closed_run:
  "low_ear_frames (fst (process_frames r g cfg (session_start cfg) fs)) = closed_run r g fs"
proof (induction fs rule: rev_induct)
  case Nil
  then show ?case by (simp add: closed_run_def measured_def List.map_filter_def session_start_def)
next
  case (snoc f fs)
  show ?case
  proof (cases "extract_measurement r g f")
    case None
    then show ?thesis
      using snoc
      by (simp add: process_frames_append_fst process_frame_skip closed_run_def measured_snoc)
  next
    case (Some m)
    then show ?thesis
      using snoc
      by (simp add: process_frames_append_fst process_frame_scored update_low_ear
          closed_run_def measured_snoc)
  qed
qed

lemma process_frames_snoc:
  "process_frames r g cfg s (fs @ [f])
     = (fst (process_frame r g cfg (fst (process_frames r g cfg s fs)) f),
        snd (process_frames r g cfg s fs)
          @ (case snd (process_frame r g cfg (fst (process_frames r g cfg s fs)) f) of
               None \<Rightarrow> [] | Some snap \<Rightarrow> [snap]))"
proof (induction fs arbitrary: s)
  case Nil
  show ?case
    by (cases "snd (process_frame r g cfg s f)")
       (simp_all add: prod_eq_iff process_frames_Cons_fst process_frames_Cons_snd)
next
  case (Cons a fs)
  show ?case
    by (cases "snd (process_frame r g cfg s a)")
       (simp_all add: prod_eq_iff process_frames_Cons_fst process_frames_Cons_snd
          Cons.IH [of "fst (process_frame r g cfg s a)"])
qed

lemma extract_missing_role:
  "role \<in> set required \<Longrightarrow> role \<notin> fst ` set pts \<Longrightarrow>
     extract_measurement required geometry (Landmarks pts) = None"
  by (auto simp: extract_measurement_def list_all_iff map_of_eq_None_iff)

subsection \<open>The blink counter\<close>

text \<open>
  Claim C1. In every session and for every sequence of frames, the blink counts of the
  emitted snapshots are non-decreasing in the order of emission, and none is negative;
  no frame lowers the blink count of the state, whatever the state.
\<close>

theorem blink_count_monotone:
  "sorted (map snap_blink_count (snd (process_frames r g cfg (session_start cfg) fs)))
   \<and> (\<forall>snap \<in> set (snd (process_frames r g cfg (session_start cfg) fs)).
         0 \<le> snap_blink_count snap)
   \<and> blink_total s \<le> blink_total (fst (process_frame r g cfg s f))"
  using emitted_blink_counts [of r g cfg "session_start cfg" fs]
    process_frame_blink_mono [of s r g cfg f]
  by (simp add: session_start_def)

text \<open>
  The claim on a session with two closures, a frame without a face and one without
  a required landmark.
\<close>

theorem blink_count_monotone_witness:
  "map snap_blink_count
     (snd (example_session
        [eyes_shut, eyes_shut, eyes_shut, eyes_wide, NoFace, partial_frame, eyes_shut,
         eyes_shut, eyes_wide])) = [0, 0, 0, 1, 1, 1, 1]
   \<and> sorted (map snap_blink_count
        (snd (example_session
           [eyes_shut, eyes_shut, eyes_shut, eyes_wide, NoFace, partial_frame, eyes_shut,
            eyes_shut, eyes_wide])))"
proof -
  have "map snap_blink_count
     (snd (example_session
        [eyes_shut, eyes_shut, eyes_shut, eyes_wide, NoFace, partial_frame, eyes_shut,
         eyes_shut, eyes_wide])) = [0, 0, 0, 1, 1, 1, 1]"
    by code_simp
  then show ?thesis
    using blink_count_monotone
      [of example_roles example_geometry example_config
          "[eyes_shut, eyes_shut, eyes_shut, eyes_wide, NoFace, partial_frame, eyes_shut,
            eyes_shut, eyes_wide]" "session_start example_config" eyes_wide]
    by (simp add: example_session_def)
qed

text \<open>
  Claim C3. A blink is committed, and the blink count goes up by exactly one, if and
  only if an OPEN frame comes right after a run of at least 3 consecutive CLOSED frames
  (average eye-aspect ratio below 0.25); otherwise the count stays. The frames counted
  are those that were scored.
\<close>

theorem blink_commit_iff_closed_run:
  "blink_total (fst (process_frames r g cfg (session_start cfg) (fs @ [f])))
     = blink_total (fst (process_frames r g cfg (session_start cfg) fs))
       + (if open_frame r g f \<and> 3 \<le> closed_run r g fs then 1 else 0)"
proof (cases "extract_measurement r g f")
  case None
  then show ?thesis
    by (simp add: process_frames_append_fst process_frame_skip open_frame_def)
next
  case (Some m)
  then show ?thesis
    using low_ear_counts_closed_run [of r g cfg fs]
    by (simp add: process_frames_append_fst process_frame_scored update_blink_total
        blink_commit_def open_frame_def blink_consec_frames_def)
qed

text \<open>
  The scenario of the specification: three frames at 0.15 and one at 0.4 give one
  blink, two frames at 0.15 and one at 0.4 give none.
\<close>

theorem blink_commit_iff_closed_run_witness:
  "blink_total (fst (example_session ([eyes_shut, eyes_shut, eyes_shut] @ [eyes_wide]))) = 1
   \<and> blink_total (fst (example_session ([eyes_shut, eyes_shut] @ [eyes_wide]))) = 0"
proof -
  have o: "open_frame example_roles example_geometry eyes_wide"
    by code_simp
  have c3: "closed_run example_roles example_geometry [eyes_shut, eyes_shut, eyes_shut] = 3"
    by code_simp
  have c2: "closed_run example_roles example_geometry [eyes_shut, eyes_shut] = 2"
    by code_simp
  have b3: "blink_total (fst (example_session [eyes_shut, eyes_shut, eyes_shut])) = 0"
    by code_simp
  have b2: "blink_total (fst (example_session [eyes_shut, eyes_shut])) = 0"
    by code_simp
  show ?thesis
    using o c3 c2 b3 b2
      blink_commit_iff_closed_run
        [of example_roles example_geometry example_config
            "[eyes_shut, eyes_shut, eyes_shut]" eyes_wide]
      blink_commit_iff_closed_run
        [of example_roles example_geometry example_config "[eyes_shut, eyes_shut]" eyes_wide]
    by (simp add: example_session_def)
qed

subsection \<open>Confidence\<close>

text \<open>
  Claim C2. The confidence is 100 right after session start, and the confidence of
  every emitted snapshot, and of the state after every scored frame, lies in [20, 100],
  whatever the frames and the state before them.
\<close>

theorem confidence_within_bounds:
  "confidence (session_start cfg) = 100
   \<and> (\<forall>snap \<in> set (snd (process_frames r g cfg s fs)).
         20 \<le> snap_confidence_score snap \<and> snap_confidence_score snap \<le> 100)
   \<and> 20 \<le> confidence (fst (update cfg s m)) \<and> confidence (fst (update cfg s m)) \<le> 100"
  using emitted_confidence [of r g cfg s fs] confidence_dynamics_range [of cfg s m]
  by (simp add: session_start_def max_confidence_def update_confidence)

text \<open>
  The claim on frames with a yaw of 30 degrees: the score decays from 100, and from 21
  it stops at the floor.
\<close>

theorem confidence_within_bounds_witness:
  "confidence (session_start example_config) = 100
   \<and> map snap_confidence_score
        (snd (example_session [example_frame (2 / 5) 30, example_frame (2 / 5) 30, eyes_wide]))
       = [979 / 10, 479 / 5, 484 / 5]
   \<and> confidence (fst (update example_config ((session_start example_config)\<lparr>confidence := 21\<rparr>)
        (example_geometry (map_of [(0, (2 / 5, 30, 0))])))) = 20"
proof -
  have a: "map snap_confidence_score
        (snd (example_session [example_frame (2 / 5) 30, example_frame (2 / 5) 30, eyes_wide]))
       = [979 / 10, 479 / 5, 484 / 5]"
    by code_simp
  have b: "confidence (fst (update example_config ((session_start example_config)\<lparr>confidence := 21\<rparr>)
        (example_geometry (map_of [(0, (2 / 5, 30, 0))])))) = 20"
    by code_simp
  show ?thesis
    using a b
      confidence_within_bounds
        [of example_config example_roles example_geometry "session_start example_config"
            "[example_frame (2 / 5) 30, example_frame (2 / 5) 30, eyes_wide]"
            "example_geometry (map_of [(0, (2 / 5, 30, 0))])"]
      confidence_within_bounds
        [of example_config example_roles example_geometry
            "(session_start example_config)\<lparr>confidence := 21\<rparr>"
            "[example_frame (2 / 5) 30, example_frame (2 / 5) 30, eyes_wide]"
            "example_geometry (map_of [(0, (2 / 5, 30, 0))])"]
    by simp
qed

subsection \<open>Mood\<close>

text \<open>
  Claim C4. For every scored frame the mood score lies in [0, 100] and the mood label
  is a function of the mood score alone: Engaged above 70, Neutral above 40 and up to
  70, Tense up to 40.
\<close>

theorem mood_score_and_label:
  "0 \<le> snap_mood_score (snd (update cfg s m)) \<and> snap_mood_score (snd (update cfg s m)) \<le> 100
   \<and> snap_mood_label (snd (update cfg s m)) = mood_label_of (snap_mood_score (snd (update cfg s m)))
   \<and> (mood_label_of x = Engaged) = (x > 70)
   \<and> (mood_label_of x = Neutral) = (40 < x \<and> x \<le> 70)
   \<and> (mood_label_of x = Tense) = (x \<le> 40)"
  by (auto simp: update_snap_mood mood_score_of_def clamp_def mood_label_of_def)

text \<open>
  The claim on a neutral face, and the labels at the two boundaries.
\<close>

theorem mood_score_and_label_witness:
  "snap_mood_score (snd (update example_config (session_start example_config)
      (example_geometry (map_of [(0, (2 / 5, 0, 0))])))) = 60
   \<and> snap_mood_label (snd (update example_config (session_start example_config)
      (example_geometry (map_of [(0, (2 / 5, 0, 0))])))) = Neutral
   \<and> mood_label_of 70 = Neutral \<and> mood_label_of 40 = Tense"
proof -
  have "snap_mood_score (snd (update example_config (session_start example_config)
      (example_geometry (map_of [(0, (2 / 5, 0, 0))])))) = 60"
    by code_simp
  then show ?thesis
    using
      mood_score_and_label
        [of example_config "session_start example_config"
            "example_geometry (map_of [(0, (2 / 5, 0, 0))])" 70]
      mood_score_and_label
        [of example_config "session_start example_config"
            "example_geometry (map_of [(0, (2 / 5, 0, 0))])" 40]
      mood_score_and_label
        [of example_config "session_start example_config"
            "example_geometry (map_of [(0, (2 / 5, 0, 0))])" 60]
    by simp
qed

subsection \<open>Frames without a measurement\<close>

text \<open>
  Claim C5. A frame that carries no face, or that lacks a required landmark role, is
  skipped: the session state after it is the state before it, in every field, and
  nothing is emitted for it, no snapshot and so no warning.
\<close>

theorem missing_landmarks_skip:
  "(frame = NoFace \<or> (\<exists>pts role. frame = Landmarks pts \<and> role \<in> set required
        \<and> role \<notin> fst ` set pts))
   \<longrightarrow> process_frame required geometry cfg s frame = (s, None)
       \<and> process_frames required geometry cfg s0 (fs @ [frame])
           = process_frames required geometry cfg s0 fs"
proof
  assume "frame = NoFace \<or> (\<exists>pts role. frame = Landmarks pts \<and> role \<in> set required
        \<and> role \<notin> fst ` set pts)"
  then have "extract_measurement required geometry frame = None"
    by (auto simp: extract_missing_role) (simp add: extract_measurement_def)
  then have skip: "process_frame required geometry cfg t frame = (t, None)" for t
    by (rule process_frame_skip)
  show "process_frame required geometry cfg s frame = (s, None)
       \<and> process_frames required geometry cfg s0 (fs @ [frame])
           = process_frames required geometry cfg s0 fs"
    by (simp add: skip process_frames_snoc)
qed

text \<open>
  The claim on a frame that has the first of the two required roles only, in the
  middle of a closure.
\<close>

theorem missing_landmarks_skip_witness:
  "process_frame example_roles example_geometry example_config
      (fst (example_session [eyes_shut, eyes_shut])) partial_frame
     = (fst (example_session [eyes_shut, eyes_shut]), None)
   \<and> example_session ([eyes_shut, eyes_shut] @ [partial_frame])
       = example_session [eyes_shut, eyes_shut]
   \<and> example_session ([eyes_shut, eyes_shut] @ [NoFace])
       = example_session [eyes_shut, eyes_shut]"
proof -
  have p: "partial_frame = Landmarks [(0, (3 / 20, 0, 0))] \<and> (1::nat) \<in> set example_roles
      \<and> (1::nat) \<notin> fst ` set [(0::nat, (3 / 20 :: rat, 0 :: rat, 0 :: rat))]"
    by (simp add: partial_frame_def example_roles_def)
  show ?thesis
    using p
      missing_landmarks_skip
        [of partial_frame example_roles example_geometry example_config
            "fst (example_session [eyes_shut, eyes_shut])"
            "session_start example_config" "[eyes_shut, eyes_shut]"]
      missing_landmarks_skip
        [of NoFace example_roles example_geometry example_config
            "fst (example_session [eyes_shut, eyes_shut])"
            "session_start example_config" "[eyes_shut, eyes_shut]"]
    unfolding example_session_def by blast
qed

end
